theory Spec2Isabelle
  imports Main
begin

section \<open>Report automation: the job runner, its collaborators and the audit log\<close>

text \<open>
  The program is \<^verbatim>\<open>src/main.py\<close>. Every function of it works on the outside world: the
  clock, the console, \<^verbatim>\<open>logs.csv\<close>, the files under \<^verbatim>\<open>Scripts\<close> and \<^verbatim>\<open>Output\<close>, the Oracle
  database and the Gmail API. The embedding splits that world in two:
  \<^item> the record \<open>world\<close> holds what the program changes (console, log file, written
    files, open database handles, delivered mail) and two counters that say how often
    the clock was read and how often \<^verbatim>\<open>logs.csv\<close> was opened;
  \<^item> the record \<open>env\<close> holds how the outside answers: which script files exist, whether
    a connection, a statement, a file write, a token refresh or a send succeeds or raises.
  A Python function becomes a function from \<open>world\<close> to an outcome and the new \<open>world\<close>;
  a raised exception is the outcome \<open>Inl e\<close>. A Python \<^verbatim>\<open>str\<close> is a \<open>string\<close>; one
  character of the model stands for one code point below 256.
\<close>

subsection \<open>Exceptions\<close>

datatype pyexn =
    FileNotFoundError string
  | KeyError string
  | RuntimeError string
  | ExternalError string
    \<comment> \<open>raised by a library or by the operating system: \<^verbatim>\<open>OSError\<close>, \<^verbatim>\<open>oracledb.Error\<close>,
        \<^verbatim>\<open>RefreshError\<close>, \<^verbatim>\<open>HttpError\<close>, ...; all are subclasses of \<^verbatim>\<open>Exception\<close>\<close>

text \<open>\<^verbatim>\<open>str(e)\<close>. A \<^verbatim>\<open>KeyError\<close> prints the \<^verbatim>\<open>repr\<close> of its key; the keys used by the
  program are plain identifiers, whose \<^verbatim>\<open>repr\<close> is the key between single quotes.\<close>

fun str_exn :: "pyexn \<Rightarrow> string" where
  "str_exn (FileNotFoundError m) = m"
| "str_exn (KeyError k) = [CHR 0x27] @ k @ [CHR 0x27]"
| "str_exn (RuntimeError m) = m"
| "str_exn (ExternalError m) = m"

subsection \<open>Data\<close>

record datetime =
  year :: nat
  month :: nat
  day :: nat
  hour :: nat
  minute :: nat
  second :: nat
  microsecond :: nat

text \<open>A \<^verbatim>\<open>pandas.DataFrame\<close> built from a cursor: column names and rows.\<close>

record dataframe =
  columns :: "string list"
  rows :: "string list list"

datatype file_content =
    CsvFile dataframe
  | ZipFile "(string \<times> file_content) list"  \<comment> \<open>archive members: name in the archive, content\<close>
  | OtherFile string

record message =
  msg_from :: string
  msg_to :: string
  msg_subject :: string
  msg_body :: string
  msg_attachment :: "(string \<times> file_content) option"  \<comment> \<open>file name, payload\<close>

text \<open>The secrets bundle is a \<^verbatim>\<open>dict\<close> read from JSON. Its values are typed as the
  program uses them: recipient lists are lists of strings, everything else is a string.\<close>

record secrets =
  strs :: "string \<rightharpoonup> string"
  lists :: "string \<rightharpoonup> string list"

text \<open>What a cursor holds after \<^verbatim>\<open>cur.execute\<close>: its \<^verbatim>\<open>description\<close> (\<^verbatim>\<open>None\<close> for a
  statement that is no query) and what \<^verbatim>\<open>cur.fetchall()\<close> will do.\<close>

record cursor_result =
  description :: "string list option"
  fetchall :: "pyexn + string list list"

text \<open>Ghost events: the calls whose occurrence the claims speak about, recorded in
  \<open>calls\<close> at the moment the call is made.\<close>

datatype call =
    RunOneJob string                 \<comment> \<open>\<^verbatim>\<open>run_one_job(sql_filename, ...)\<close>\<close>
  | ExecuteQuery string string       \<comment> \<open>\<^verbatim>\<open>execute_query(DB_DSN, sql_text)\<close>\<close>
  | ToCsv string                     \<comment> \<open>\<^verbatim>\<open>df.to_csv(csv_file, ...)\<close>\<close>
  | ZipWrite string                  \<comment> \<open>\<^verbatim>\<open>zipfile.ZipFile(zip_file, "w", ...)\<close>\<close>
  | SendMail "string list" string    \<comment> \<open>\<^verbatim>\<open>send_mail_gmail_api(..., recipients, subject, ...)\<close>\<close>

record world =
  ticks :: nat                               \<comment> \<open>calls of \<^verbatim>\<open>datetime.now()\<close> so far\<close>
  log_attempts :: nat                        \<comment> \<open>times \<^verbatim>\<open>logs.csv\<close> was opened for appending\<close>
  console :: "string list"                   \<comment> \<open>lines printed\<close>
  log_csv :: "string list list option"       \<comment> \<open>\<^verbatim>\<open>logs.csv\<close>: absent, or its rows\<close>
  files :: "string \<rightharpoonup> file_content"        \<comment> \<open>the other files on disk, by path\<close>
  db_conns :: nat                            \<comment> \<open>open database connections\<close>
  db_cursors :: nat                          \<comment> \<open>open cursors\<close>
  outbox :: "message list"                   \<comment> \<open>messages the Gmail API accepted\<close>
  calls :: "call list"                       \<comment> \<open>ghost: see \<open>call\<close>\<close>

record env =
  clock :: "nat \<Rightarrow> datetime"                       \<comment> \<open>the n-th \<^verbatim>\<open>datetime.now()\<close>\<close>
  log_fails :: "nat \<Rightarrow> pyexn option"               \<comment> \<open>the n-th \<^verbatim>\<open>open(LOG_CSV, "a")\<close> raises\<close>
  traceback :: "pyexn \<Rightarrow> string"                   \<comment> \<open>\<^verbatim>\<open>traceback.format_exc()\<close>\<close>
  repr_list :: "string list \<Rightarrow> string"             \<comment> \<open>\<^verbatim>\<open>repr\<close> of a list of strings\<close>
  scripts :: "string \<rightharpoonup> (pyexn + string)"          \<comment> \<open>files under \<^verbatim>\<open>Scripts\<close>: \<^verbatim>\<open>read_text\<close>\<close>
  db_connect :: "string \<Rightarrow> pyexn option"            \<comment> \<open>\<^verbatim>\<open>oracledb.connect(dsn=...)\<close> raises\<close>
  db_execute :: "string \<Rightarrow> string \<Rightarrow> pyexn + cursor_result"  \<comment> \<open>\<^verbatim>\<open>cur.execute(sql)\<close>\<close>
  csv_write_fails :: "string \<Rightarrow> pyexn option"       \<comment> \<open>\<^verbatim>\<open>df.to_csv(path)\<close> raises\<close>
  zip_open_fails :: "string \<Rightarrow> pyexn option"        \<comment> \<open>\<^verbatim>\<open>ZipFile(path, "w")\<close> raises\<close>
  zip_write_fails :: "string \<Rightarrow> pyexn option"       \<comment> \<open>\<^verbatim>\<open>zf.write(...)\<close> raises\<close>
  oauth_refresh :: "string \<Rightarrow> string \<Rightarrow> string \<Rightarrow> pyexn option"
                                                    \<comment> \<open>\<^verbatim>\<open>creds.refresh(Request())\<close> raises\<close>
  gmail_build :: "pyexn option"                     \<comment> \<open>\<^verbatim>\<open>build("gmail", "v1", ...)\<close> raises\<close>
  read_fails :: "string \<Rightarrow> pyexn option"            \<comment> \<open>reading the attachment raises\<close>
  gmail_send :: "message \<Rightarrow> pyexn option"           \<comment> \<open>\<^verbatim>\<open>messages().send(...).execute()\<close> raises\<close>
  aws_secret :: "string \<Rightarrow> pyexn + secrets"         \<comment> \<open>AWS Secrets Manager, by secret name\<close>
  local_secret :: "(pyexn + secrets) option"        \<comment> \<open>\<^verbatim>\<open>local_secrets.json\<close>: absent, or its load\<close>
  query_list :: "(pyexn + string) option"           \<comment> \<open>\<^verbatim>\<open>querymod.txt\<close>: absent, or its read\<close>

subsection \<open>Control flow: sequencing, raise, try/except, try/finally\<close>

type_synonym 'a io = "world \<Rightarrow> (pyexn + 'a) \<times> world"

definition ret :: "'a \<Rightarrow> 'a io" where
  "ret x = (\<lambda>w. (Inr x, w))"

definition raise :: "pyexn \<Rightarrow> 'a io" where
  "raise e = (\<lambda>w. (Inl e, w))"

text \<open>\<open>bnd m k\<close>: run \<open>m\<close>; if it raised, the exception passes on; else run \<open>k\<close> on its value.\<close>

definition bnd :: "'a io \<Rightarrow> ('a \<Rightarrow> 'b io) \<Rightarrow> 'b io" where
  "bnd m k = (\<lambda>w. case m w of (Inl e, w') \<Rightarrow> (Inl e, w') | (Inr x, w') \<Rightarrow> k x w')"

text \<open>\<^verbatim>\<open>try: m  except Exception as e: h\<close>. Every exception of the model is an
  \<^verbatim>\<open>Exception\<close>.\<close>

definition try_except :: "'a io \<Rightarrow> (pyexn \<Rightarrow> 'a io) \<Rightarrow> 'a io" where
  "try_except m h = (\<lambda>w. case m w of (Inl e, w') \<Rightarrow> h e w' | (Inr x, w') \<Rightarrow> (Inr x, w'))"

text \<open>\<^verbatim>\<open>try: m  finally: f\<close>. The finaliser runs on both exits; an exception of the
  finaliser replaces the outcome of \<open>m\<close>.\<close>

definition try_finally :: "'a io \<Rightarrow> unit io \<Rightarrow> 'a io" where
  "try_finally m f = (\<lambda>w. case m w of (r, w') \<Rightarrow>
     (case f w' of (Inl e, w'') \<Rightarrow> (Inl e, w'') | (Inr _, w'') \<Rightarrow> (r, w'')))"

definition modify :: "(world \<Rightarrow> world) \<Rightarrow> unit io" where
  "modify f = (\<lambda>w. (Inr (), f w))"

text \<open>An outside operation that either raises or returns nothing.\<close>

definition attempt :: "pyexn option \<Rightarrow> unit io" where
  "attempt r = (case r of None \<Rightarrow> ret () | Some e \<Rightarrow> raise e)"

definition of_sum :: "pyexn + 'a \<Rightarrow> 'a io" where
  "of_sum r = (case r of Inl e \<Rightarrow> raise e | Inr x \<Rightarrow> ret x)"

definition record_call :: "call \<Rightarrow> unit io" where
  "record_call c = modify (\<lambda>w. w\<lparr>calls := calls w @ [c]\<rparr>)"

text \<open>\<^verbatim>\<open>d[k]\<close> on the secrets bundle.\<close>

definition get_str :: "secrets \<Rightarrow> string \<Rightarrow> string io" where
  "get_str s k = (case strs s k of None \<Rightarrow> raise (KeyError k) | Some v \<Rightarrow> ret v)"

definition get_list :: "secrets \<Rightarrow> string \<Rightarrow> string list io" where
  "get_list s k = (case lists s k of None \<Rightarrow> raise (KeyError k) | Some v \<Rightarrow> ret v)"

subsection \<open>Configuration\<close>

definition SCRIPTS_DIR :: string where "SCRIPTS_DIR = ''Scripts''"
definition OUTPUT_DIR :: string where "OUTPUT_DIR = ''Output''"

text \<open>\<^verbatim>\<open>Path(d) / name\<close> printed as a POSIX path: an absolute \<open>name\<close> replaces \<open>d\<close>. The
  path is kept as written (pathlib would also drop \<^verbatim>\<open>.\<close> components and doubled
  slashes).\<close>

definition path_join :: "string \<Rightarrow> string \<Rightarrow> string" where
  "path_join d name = (case name of
       c # _ \<Rightarrow> (if c = CHR ''/'' then name else d @ ''/'' @ name)
     | [] \<Rightarrow> d @ ''/'' @ name)"

text \<open>\<^verbatim>\<open>Path(p).name\<close>: the last component.\<close>

definition path_name :: "string \<Rightarrow> string" where
  "path_name p = rev (takeWhile (\<lambda>c. c \<noteq> CHR ''/'') (rev p))"

subsection \<open>Helper functions\<close>

definition digit :: "nat \<Rightarrow> char" where
  "digit n = char_of (48 + n mod 10)"

text \<open>Decimal numerals, as \<^verbatim>\<open>str(n)\<close> and \<^verbatim>\<open>f"{n}"\<close> print a natural number.\<close>

fun str_nat :: "nat \<Rightarrow> string" where
  "str_nat n = (if n < 10 then [digit n] else str_nat (n div 10) @ [digit n])"

declare str_nat.simps [simp del]

definition pad2 :: "nat \<Rightarrow> string" where
  "pad2 n = (if n < 10 then CHR ''0'' # str_nat n else str_nat n)"

definition pad4 :: "nat \<Rightarrow> string" where
  "pad4 n = replicate (4 - length (str_nat n)) CHR ''0'' @ str_nat n"

text \<open>\<^verbatim>\<open>strftime("%d-%m-%Y %H-%M-%S")\<close>: the microsecond is not printed.\<close>

definition strftime :: "datetime \<Rightarrow> string" where
  "strftime t = pad2 (day t) @ ''-'' @ pad2 (month t) @ ''-'' @ pad4 (year t) @ '' '' @
                pad2 (hour t) @ ''-'' @ pad2 (minute t) @ ''-'' @ pad2 (second t)"

definition now_ts :: "env \<Rightarrow> string io" where
  "now_ts E = (\<lambda>w. (Inr (strftime (clock E (ticks w))), w\<lparr>ticks := Suc (ticks w)\<rparr>))"

definition header :: "string list" where
  "header = [''status'', ''job'', ''time'', ''notes'']"

text \<open>\<^verbatim>\<open>log_append\<close>. The lock is taken and released around the body; this sequential
  model has one thread, so taking it never waits. \<^verbatim>\<open>LOG_CSV.exists()\<close> is read first;
  then the file is opened for appending, which either raises (the file is left as it was)
  or lets the header, if due, and the row be written. The function has no handler: what
  \<^verbatim>\<open>open\<close> raises leaves the \<^verbatim>\<open>with\<close> blocks and the function.\<close>

definition log_append :: "env \<Rightarrow> string list \<Rightarrow> unit io" where
  "log_append E row = (\<lambda>w.
     let write_header = (log_csv w = None);
         old = (case log_csv w of None \<Rightarrow> [] | Some rs \<Rightarrow> rs);
         w1 = w\<lparr>log_attempts := Suc (log_attempts w)\<rparr>
     in case log_fails E (log_attempts w) of
          Some e \<Rightarrow> (Inl e, w1)
        | None \<Rightarrow> (Inr (), w1\<lparr>log_csv := Some (old @ (if write_header then [header] else []) @ [row])\<rparr>))"

definition print_line :: "string \<Rightarrow> unit io" where
  "print_line s = modify (\<lambda>w. w\<lparr>console := console w @ [s]\<rparr>)"

definition log_print :: "env \<Rightarrow> string \<Rightarrow> string \<Rightarrow> string \<Rightarrow> unit io" where
  "log_print E stage job note =
     bnd (now_ts E) (\<lambda>ts.
     bnd (print_line (''['' @ ts @ ''] ['' @ stage @ ''] ['' @ job @ ''] '' @ note)) (\<lambda>_.
     log_append E [stage, job, ts, note]))"


subsection \<open>Gmail sender\<close>

definition nl :: string where
  "nl = [CHR 0x0A]"

text \<open>\<^verbatim>\<open>sep.join(xs)\<close>.\<close>

fun join :: "string \<Rightarrow> string list \<Rightarrow> string" where
  "join sep [] = []"
| "join sep [x] = x"
| "join sep (x # y # ys) = x @ sep @ join sep (y # ys)"

text \<open>Lines 137 to 147 of \<^verbatim>\<open>send_mail_gmail_api\<close>: the attachment is read and attached
  when the path is given, not empty, and names an existing file; then the \<^verbatim>\<open>MAIL\<close> line
  is logged. Otherwise the message is left as it is and nothing is logged.\<close>

definition attach_part :: "env \<Rightarrow> string \<Rightarrow> string option \<Rightarrow> message \<Rightarrow> message io" where
  "attach_part E job_label attachment_path msg = (\<lambda>w.
     case attachment_path of
       None \<Rightarrow> (Inr msg, w)
     | Some p \<Rightarrow>
         if p = [] then (Inr msg, w)
         else (case files w p of
                 None \<Rightarrow> (Inr msg, w)
               | Some c \<Rightarrow>
                   bnd (attempt (read_fails E p)) (\<lambda>_.
                   bnd (log_print E ''MAIL'' job_label (''Attached file '' @ p)) (\<lambda>_.
                   ret (msg\<lparr>msg_attachment := Some (path_name p, c)\<rparr>))) w))"

text \<open>The \<^verbatim>\<open>try\<close> suite of \<^verbatim>\<open>send_mail_gmail_api\<close>, lines 121 to 152.\<close>

definition mail_try ::
  "env \<Rightarrow> string \<Rightarrow> string \<Rightarrow> string \<Rightarrow> string \<Rightarrow> string \<Rightarrow> string list \<Rightarrow> string \<Rightarrow> string \<Rightarrow>
   string option \<Rightarrow> bool io" where
  "mail_try E job_label sender_email client_id client_secret refresh_token recipients
       subject body_text attachment_path =
     bnd (attempt (oauth_refresh E client_id client_secret refresh_token)) (\<lambda>_.
     bnd (attempt (gmail_build E)) (\<lambda>_.
     let msg = \<lparr>msg_from = sender_email, msg_to = join '','' recipients,
                msg_subject = subject, msg_body = body_text, msg_attachment = None\<rparr> in
     bnd (attach_part E job_label attachment_path msg) (\<lambda>msg.
     bnd (attempt (gmail_send E msg)) (\<lambda>_.
     bnd (modify (\<lambda>w. w\<lparr>outbox := outbox w @ [msg]\<rparr>)) (\<lambda>_.
     bnd (log_print E ''MAIL-SENT'' job_label (''Mail sent to '' @ repr_list E recipients)) (\<lambda>_.
     ret True))))))"

text \<open>The \<^verbatim>\<open>except Exception as e\<close> suite of \<^verbatim>\<open>send_mail_gmail_api\<close>, lines 154 to 157.\<close>

definition mail_except :: "env \<Rightarrow> string \<Rightarrow> pyexn \<Rightarrow> bool io" where
  "mail_except E job_label e =
    (let tb = traceback E e in
     bnd (log_print E ''MAIL-ERROR'' job_label (str_exn e @ nl @ tb)) (\<lambda>_.
     ret False))"

definition send_mail_gmail_api ::
  "env \<Rightarrow> string \<Rightarrow> string \<Rightarrow> string \<Rightarrow> string \<Rightarrow> string list \<Rightarrow> string \<Rightarrow> string \<Rightarrow>
   string option \<Rightarrow> bool io" where
  "send_mail_gmail_api E sender_email client_id client_secret refresh_token recipients
       subject body_text attachment_path =
     bnd (record_call (SendMail recipients subject)) (\<lambda>_.
     let job_label = ''MAIL:'' @ subject in
     try_except
       (mail_try E job_label sender_email client_id client_secret refresh_token recipients
          subject body_text attachment_path)
       (mail_except E job_label))"

subsection \<open>Oracle query executor\<close>

text \<open>\<^verbatim>\<open>oracledb.connect\<close> may raise; \<^verbatim>\<open>con.cursor()\<close> on the fresh connection, and the
  two \<^verbatim>\<open>close()\<close> calls on open handles, return.\<close>

definition connect :: "env \<Rightarrow> string \<Rightarrow> unit io" where
  "connect E dsn =
     bnd (attempt (db_connect E dsn)) (\<lambda>_. modify (\<lambda>w. w\<lparr>db_conns := Suc (db_conns w)\<rparr>))"

definition cursor :: "unit io" where
  "cursor = modify (\<lambda>w. w\<lparr>db_cursors := Suc (db_cursors w)\<rparr>)"

definition cursor_close :: "unit io" where
  "cursor_close = modify (\<lambda>w. w\<lparr>db_cursors := db_cursors w - 1\<rparr>)"

definition connection_close :: "unit io" where
  "connection_close = modify (\<lambda>w. w\<lparr>db_conns := db_conns w - 1\<rparr>)"

definition execute_query :: "env \<Rightarrow> string \<Rightarrow> string \<Rightarrow> dataframe io" where
  "execute_query E DB_DSN sql_text =
     bnd (record_call (ExecuteQuery DB_DSN sql_text)) (\<lambda>_.
     bnd (log_print E ''DB-CONNECT'' ''THREAD'' ''Opening DB connection'') (\<lambda>_.
     bnd (connect E DB_DSN) (\<lambda>_.
     bnd cursor (\<lambda>_.
     try_finally
       (bnd (of_sum (db_execute E DB_DSN sql_text)) (\<lambda>cur.
        let cols = (case description cur of Some d \<Rightarrow> d | None \<Rightarrow> []) in
        bnd (of_sum (fetchall cur)) (\<lambda>fetched.
        let df = \<lparr>columns = cols, rows = fetched\<rparr> in
        bnd (log_print E ''DB-EXEC'' ''THREAD''
               (''Executed SQL | Rows='' @ str_nat (length (rows df)))) (\<lambda>_.
        ret df))))
       (bnd cursor_close (\<lambda>_.
        bnd connection_close (\<lambda>_.
        log_print E ''DB-CLOSE'' ''THREAD'' ''Connection closed.'')))))))"

subsection \<open>Job runner\<close>

definition to_csv :: "env \<Rightarrow> dataframe \<Rightarrow> string \<Rightarrow> unit io" where
  "to_csv E df path =
     bnd (record_call (ToCsv path)) (\<lambda>_.
     bnd (attempt (csv_write_fails E path)) (\<lambda>_.
     modify (\<lambda>w. w\<lparr>files := (files w)(path \<mapsto> CsvFile df)\<rparr>)))"

text \<open>\<^verbatim>\<open>with zipfile.ZipFile(zip_file, "w", ...) as zf: zf.write(csv_file, arcname=...)\<close>.
  Opening in mode \<^verbatim>\<open>"w"\<close> creates or truncates the archive; if the write raises, leaving
  the \<^verbatim>\<open>with\<close> block closes an archive without members.\<close>

definition zip_csv :: "env \<Rightarrow> string \<Rightarrow> string \<Rightarrow> unit io" where
  "zip_csv E zip_file csv_file =
     bnd (record_call (ZipWrite zip_file)) (\<lambda>_.
     bnd (attempt (zip_open_fails E zip_file)) (\<lambda>_.
     bnd (modify (\<lambda>w. w\<lparr>files := (files w)(zip_file \<mapsto> ZipFile [])\<rparr>)) (\<lambda>_.
     (\<lambda>w. case files w csv_file of
             None \<Rightarrow> (Inl (FileNotFoundError csv_file), w)
           | Some c \<Rightarrow>
               bnd (attempt (zip_write_fails E zip_file)) (\<lambda>_.
               modify (\<lambda>w. w\<lparr>files := (files w)(zip_file \<mapsto> ZipFile [(path_name csv_file, c)])\<rparr>)) w))))"

text \<open>The \<^verbatim>\<open>try\<close> suite of \<^verbatim>\<open>run_one_job\<close>, lines 193 to 229.\<close>

definition job_try :: "env \<Rightarrow> string \<Rightarrow> secrets \<Rightarrow> string \<Rightarrow> string \<Rightarrow> unit io" where
  "job_try E sql_filename secrets job_id sql_path =
     bnd (case scripts E sql_path of
            None \<Rightarrow> raise (FileNotFoundError (''SQL file not found: '' @ sql_path))
          | Some r \<Rightarrow> of_sum r) (\<lambda>sql_text.
     bnd (get_str secrets ''DB_DSN'') (\<lambda>dsn.
     bnd (execute_query E dsn sql_text) (\<lambda>df.
     let csv_file = path_join OUTPUT_DIR (job_id @ ''.csv'') in
     bnd (to_csv E df csv_file) (\<lambda>_.
     bnd (log_print E ''FILE-CSV'' job_id (''Wrote CSV: '' @ csv_file)) (\<lambda>_.
     let zip_file = path_join OUTPUT_DIR (job_id @ ''.zip'') in
     bnd (zip_csv E zip_file csv_file) (\<lambda>_.
     bnd (log_print E ''FILE-ZIP'' job_id (''Created ZIP: '' @ zip_file)) (\<lambda>_.
     let subject = ''Report: '' @ sql_filename;
         body = ''Hi All,'' @ nl @ nl @
                ''The report for '' @ sql_filename @ '' is ready.'' @ nl @
                ''Attached ZIP file contains the CSV output.'' @ nl @ nl @
                ''Regards,'' @ nl @ ''Automation System'' @ nl @ nl @
                ''**This is an automated email.**'' in
     bnd (get_str secrets ''GMAIL_SENDER_EMAIL'') (\<lambda>sender.
     bnd (get_str secrets ''GMAIL_CLIENT_ID'') (\<lambda>client_id.
     bnd (get_str secrets ''GMAIL_CLIENT_SECRET'') (\<lambda>client_secret.
     bnd (get_str secrets ''GMAIL_REFRESH_TOKEN'') (\<lambda>refresh_token.
     bnd (get_list secrets ''RECEIVERS'') (\<lambda>receivers.
     bnd (send_mail_gmail_api E sender client_id client_secret refresh_token receivers
            subject body (Some zip_file)) (\<lambda>_.
     bnd (now_ts E) (\<lambda>ts.
     bnd (log_append E [''SUCCESS'', job_id, ts, ''Job completed successfully'']) (\<lambda>_.
     log_print E ''JOB-DONE'' job_id ''Completed successfully.'')))))))))))))))"

text \<open>The \<^verbatim>\<open>except Exception as e\<close> suite of \<^verbatim>\<open>run_one_job\<close>, lines 231 to 243.\<close>

definition job_except :: "env \<Rightarrow> string \<Rightarrow> secrets \<Rightarrow> string \<Rightarrow> pyexn \<Rightarrow> unit io" where
  "job_except E sql_filename secrets job_id e =
    (let tb = traceback E e in
     bnd (log_print E ''JOB-ERROR'' job_id (str_exn e @ nl @ tb)) (\<lambda>_.
     bnd (get_str secrets ''GMAIL_SENDER_EMAIL'') (\<lambda>sender.
     bnd (get_str secrets ''GMAIL_CLIENT_ID'') (\<lambda>client_id.
     bnd (get_str secrets ''GMAIL_CLIENT_SECRET'') (\<lambda>client_secret.
     bnd (get_str secrets ''GMAIL_REFRESH_TOKEN'') (\<lambda>refresh_token.
     bnd (get_list secrets ''ERROR_RECEIVERS'') (\<lambda>error_receivers.
     bnd (send_mail_gmail_api E sender client_id client_secret refresh_token error_receivers
            (''FAILED: '' @ sql_filename)
            (''Error executing job '' @ sql_filename @ nl @ nl @ tb) None) (\<lambda>_.
     bnd (now_ts E) (\<lambda>ts.
     log_append E [''FAIL'', job_id, ts, str_exn e])))))))))"

definition run_one_job :: "env \<Rightarrow> string \<Rightarrow> secrets \<Rightarrow> unit io" where
  "run_one_job E sql_filename secrets =
     bnd (record_call (RunOneJob sql_filename)) (\<lambda>_.
     bnd (now_ts E) (\<lambda>ts.
     let job_id = sql_filename @ '' '' @ ts;
         sql_path = path_join SCRIPTS_DIR sql_filename in
     bnd (log_print E ''JOB-START'' job_id ''Starting job...'') (\<lambda>_.
     try_except (job_try E sql_filename secrets job_id sql_path)
                (job_except E sql_filename secrets job_id))))"

subsection \<open>Secret manager\<close>


subsection \<open>Main entry point\<close>











subsection \<open>What the claims observe\<close>

definition log_rows :: "world \<Rightarrow> string list list" where
  "log_rows w = (case log_csv w of None \<Rightarrow> [] | Some rs \<Rightarrow> rs)"

text \<open>A terminal audit record: a row whose status is \<^verbatim>\<open>SUCCESS\<close> or \<^verbatim>\<open>FAIL\<close>.\<close>

definition terminal :: "string list \<Rightarrow> bool" where
  "terminal row = (case row of [] \<Rightarrow> False | status # _ \<Rightarrow> status = ''SUCCESS'' \<or> status = ''FAIL'')"

definition terminal_rows :: "world \<Rightarrow> string list list" where
  "terminal_rows w = filter terminal (log_rows w)"



text \<open>The world after a successful \<^verbatim>\<open>log_append\<close> of \<open>row\<close>, after the
  \<^verbatim>\<open>print\<close> of \<^verbatim>\<open>log_print\<close>, and after a successful \<^verbatim>\<open>log_print\<close>.\<close>

definition appended :: "string list \<Rightarrow> world \<Rightarrow> world" where
  "appended row w = w\<lparr>log_attempts := Suc (log_attempts w),
     log_csv := Some (log_rows w @ (if log_csv w = None then [header] else []) @ [row])\<rparr>"

definition said :: "env \<Rightarrow> string \<Rightarrow> string \<Rightarrow> string \<Rightarrow> world \<Rightarrow> world" where
  "said E stage job note w =
     w\<lparr>ticks := Suc (ticks w),
       console := console w @
         [''['' @ strftime (clock E (ticks w)) @ ''] ['' @ stage @ ''] ['' @ job @ ''] '' @ note]\<rparr>"

definition logged :: "env \<Rightarrow> string \<Rightarrow> string \<Rightarrow> string \<Rightarrow> world \<Rightarrow> world" where
  "logged E stage job note w =
     appended [stage, job, strftime (clock E (ticks w)), note] (said E stage job note w)"

text \<open>An observation that does not read the clock counter, the console or the log.\<close>

definition ignores_log :: "(world \<Rightarrow> 'b) \<Rightarrow> bool" where
  "ignores_log f =
     ((\<forall>w t. f (w\<lparr>ticks := t\<rparr>) = f w) \<and> (\<forall>w c. f (w\<lparr>console := c\<rparr>) = f w) \<and>
      (\<forall>w a. f (w\<lparr>log_attempts := a\<rparr>) = f w) \<and> (\<forall>w l. f (w\<lparr>log_csv := l\<rparr>) = f w))"

text \<open>The open database handles: connections and cursors.\<close>

definition db_open :: "world \<Rightarrow> nat \<times> nat" where
  "db_open w = (db_conns w, db_cursors w)"

text \<open>No attempt to append to \<^verbatim>\<open>logs.csv\<close> fails.\<close>

definition log_ok :: "env \<Rightarrow> bool" where
  "log_ok E = (\<forall>n. log_fails E n = None)"

text \<open>\<open>steps R m\<close>: running \<open>m\<close> takes every world to one related to it by \<open>R\<close>,
  whether \<open>m\<close> returns or raises. \<open>keeps f m\<close>: it leaves the observation \<open>f\<close> as it was.
  \<open>log_extends w w'\<close>: the log of \<open>w'\<close> is the log of \<open>w\<close> with rows added at its end.\<close>

definition steps :: "(world \<Rightarrow> world \<Rightarrow> bool) \<Rightarrow> 'a io \<Rightarrow> bool" where
  "steps R m = (\<forall>w. R w (snd (m w)))"

definition keeps :: "(world \<Rightarrow> 'b) \<Rightarrow> 'a io \<Rightarrow> bool" where
  "keeps f m = steps (\<lambda>w w'. f w' = f w) m"

definition log_extends :: "world \<Rightarrow> world \<Rightarrow> bool" where
  "log_extends w w' = (\<exists>rs. log_rows w' = log_rows w @ rs)"

text \<open>The jobs started so far: the \<open>RunOneJob\<close> events, in order.\<close>

definition is_run :: "call \<Rightarrow> bool" where
  "is_run c = (case c of RunOneJob _ \<Rightarrow> True | _ \<Rightarrow> False)"

definition run_calls :: "world \<Rightarrow> call list" where
  "run_calls w = filter is_run (calls w)"

text \<open>\<open>frame E R\<close>: the relation \<open>R\<close> between the world before and the world after is
  reflexive and transitive, and holds across the steps that neither write a terminal
  record nor start a job: a log line of another stage, reading the clock, a ghost event
  that is no \<open>RunOneJob\<close>, a change of the outbox or of the database handles.
  \<open>writes R p\<close>: it also holds across a write of the file \<open>p\<close>; \<open>appends E R\<close>: and across
  any append to the log.\<close>

definition frame :: "env \<Rightarrow> (world \<Rightarrow> world \<Rightarrow> bool) \<Rightarrow> bool" where
  "frame E R =
     ((\<forall>w. R w w) \<and> (\<forall>a b c. R a b \<longrightarrow> R b c \<longrightarrow> R a c) \<and>
      (\<forall>s j n. s \<noteq> ''SUCCESS'' \<and> s \<noteq> ''FAIL'' \<longrightarrow> steps R (log_print E s j n)) \<and>
      steps R (now_ts E) \<and>
      (\<forall>c. \<not> is_run c \<longrightarrow> steps R (record_call c)) \<and>
      (\<forall>w x. R w (w\<lparr>outbox := x\<rparr>)) \<and>
      (\<forall>w x. R w (w\<lparr>db_conns := x\<rparr>)) \<and>
      (\<forall>w x. R w (w\<lparr>db_cursors := x\<rparr>)))"

definition writes :: "(world \<Rightarrow> world \<Rightarrow> bool) \<Rightarrow> string \<Rightarrow> bool" where
  "writes R p = (\<forall>w c. R w (w\<lparr>files := (files w)(p \<mapsto> c)\<rparr>))"


text \<open>The relations used: no terminal record was written and no job was started; the
  log was only extended and the file \<open>p\<close> was left alone; no job was started.\<close>

definition quiet :: "world \<Rightarrow> world \<Rightarrow> bool" where
  "quiet w w' = (terminal_rows w' = terminal_rows w \<and> run_calls w' = run_calls w)"




text \<open>\<open>adds P m\<close>: when \<open>m\<close> raises it has written no terminal record; when it returns
  it has written exactly one, and that one satisfies \<open>P\<close>.\<close>

definition adds :: "(string list \<Rightarrow> bool) \<Rightarrow> 'a io \<Rightarrow> bool" where
  "adds P m = (\<forall>w. case m w of
      (Inl e, w') \<Rightarrow> terminal_rows w' = terminal_rows w
    | (Inr x, w') \<Rightarrow> (\<exists>row. terminal_rows w' = terminal_rows w @ [row] \<and> P row))"



subsection \<open>A concrete world\<close>

text \<open>A small installation on which the theorems are instantiated: one script
  \<^verbatim>\<open>Scripts/sales.sql\<close>, a database that answers it with one row, a job list that names
  \<^verbatim>\<open>sales.sql\<close> and a script that does not exist, and collaborators that all work.
  Variants that fail are written as updates of \<open>demo_env\<close>.\<close>

definition demo_secrets :: secrets where
  "demo_secrets =
     \<lparr>strs = [''DB_DSN'' \<mapsto> ''db'', ''GMAIL_SENDER_EMAIL'' \<mapsto> ''me@x'',
              ''GMAIL_CLIENT_ID'' \<mapsto> ''id'', ''GMAIL_CLIENT_SECRET'' \<mapsto> ''cs'',
              ''GMAIL_REFRESH_TOKEN'' \<mapsto> ''rt''],
      lists = [''RECEIVERS'' \<mapsto> [''a@x'', ''b@x''], ''ERROR_RECEIVERS'' \<mapsto> [''ops@x'']]\<rparr>"

definition demo_env :: env where
  "demo_env =
     \<lparr>clock = (\<lambda>n. \<lparr>year = 2024, month = 1, day = 2, hour = 10, minute = 0, second = n,
                     microsecond = 0\<rparr>),
      log_fails = (\<lambda>_. None),
      traceback = (\<lambda>_. ''Traceback (most recent call last): ...''),
      repr_list = (\<lambda>xs. ''['' @ join '', '' xs @ '']''),
      scripts = [''Scripts/sales.sql'' \<mapsto> Inr ''select 1 from dual''],
      db_connect = (\<lambda>_. None),
      db_execute = (\<lambda>_ _. Inr \<lparr>description = Some [''A''], fetchall = Inr [[''1'']]\<rparr>),
      csv_write_fails = (\<lambda>_. None),
      zip_open_fails = (\<lambda>_. None),
      zip_write_fails = (\<lambda>_. None),
      oauth_refresh = (\<lambda>_ _ _. None),
      gmail_build = None,
      read_fails = (\<lambda>_. None),
      gmail_send = (\<lambda>_. None),
      aws_secret = (\<lambda>_. Inr demo_secrets),
      local_secret = None,
      query_list = Some (Inr (''sales.sql'' @ nl @ ''  '' @ nl @ '' missing.sql  '' @ nl))\<rparr>"

definition demo_world :: world where
  "demo_world = \<lparr>ticks = 0, log_attempts = 0, console = [], log_csv = None, files = Map.empty,
     db_conns = 0, db_cursors = 0, outbox = [], calls = []\<rparr>"




section \<open>Properties\<close>

subsection \<open>Control flow and observations\<close>

lemma stepsD: "steps R m \<Longrightarrow> m w = (r, w') \<Longrightarrow> R w w'"
  by (auto simp: steps_def dest: spec [where x = w])

lemma steps_ret: "(\<And>w. R w w) \<Longrightarrow> steps R (ret x)"
  by (simp add: steps_def ret_def)

lemma steps_raise: "(\<And>w. R w w) \<Longrightarrow> steps R (raise e)"
  by (simp add: steps_def raise_def)

lemma steps_bnd:
  assumes tr: "\<And>a b c. R a b \<Longrightarrow> R b c \<Longrightarrow> R a c"
    and m: "steps R m" and k: "\<And>x. steps R (k x)"
  shows "steps R (bnd m k)"
  unfolding steps_def
proof
  fix w
  obtain r w' where mw: "m w = (r, w')" by (cases "m w")
  have a: "R w w'" using m mw by (rule stepsD)
  show "R w (snd (bnd m k w))"
  proof (cases r)
    case (Inl e)
    then show ?thesis using mw a by (simp add: bnd_def)
  next
    case (Inr x)
    obtain r2 w2 where kw: "k x w' = (r2, w2)" by (cases "k x w'")
    have "R w' w2" using k kw by (rule stepsD)
    then have "R w w2" using a tr by blast
    then show ?thesis using Inr mw kw by (simp add: bnd_def)
  qed
qed

lemma steps_try_except:
  assumes tr: "\<And>a b c. R a b \<Longrightarrow> R b c \<Longrightarrow> R a c"
    and m: "steps R m" and h: "\<And>e. steps R (h e)"
  shows "steps R (try_except m h)"
  unfolding steps_def
proof
  fix w
  obtain r w' where mw: "m w = (r, w')" by (cases "m w")
  have a: "R w w'" using m mw by (rule stepsD)
  show "R w (snd (try_except m h w))"
  proof (cases r)
    case (Inr x)
    then show ?thesis using mw a by (simp add: try_except_def)
  next
    case (Inl e)
    obtain r2 w2 where hw: "h e w' = (r2, w2)" by (cases "h e w'")
    have "R w' w2" using h hw by (rule stepsD)
    then have "R w w2" using a tr by blast
    then show ?thesis using Inl mw hw by (simp add: try_except_def)
  qed
qed

lemma steps_try_finally:
  assumes tr: "\<And>a b c. R a b \<Longrightarrow> R b c \<Longrightarrow> R a c"
    and m: "steps R m" and g: "steps R g"
  shows "steps R (try_finally m g)"
  unfolding steps_def
proof
  fix w
  obtain r w' where mw: "m w = (r, w')" by (cases "m w")
  obtain r2 w2 where gw: "g w' = (r2, w2)" by (cases "g w'")
  have "R w w'" using m mw by (rule stepsD)
  moreover have "R w' w2" using g gw by (rule stepsD)
  ultimately have "R w w2" using tr by blast
  then show "R w (snd (try_finally m g w))"
    using mw gw by (cases r2) (simp_all add: try_finally_def)
qed

named_theorems keeps_intros

lemma keepsD: "keeps f m \<Longrightarrow> m w = (r, w') \<Longrightarrow> f w' = f w"
  unfolding keeps_def by (rule stepsD)

lemma keeps_apply: "keeps f m \<Longrightarrow> f (snd (m w)) = f w"
  by (simp add: keeps_def steps_def)

lemma keeps_ret [keeps_intros]: "keeps f (ret x)"
  unfolding keeps_def by (rule steps_ret) simp

lemma keeps_raise [keeps_intros]: "keeps f (raise e)"
  unfolding keeps_def by (rule steps_raise) simp

lemma keeps_bnd [keeps_intros]: "keeps f m \<Longrightarrow> (\<And>x. keeps f (k x)) \<Longrightarrow> keeps f (bnd m k)"
  unfolding keeps_def by (rule steps_bnd) simp_all

lemma keeps_try_except [keeps_intros]:
  "keeps f m \<Longrightarrow> (\<And>e. keeps f (h e)) \<Longrightarrow> keeps f (try_except m h)"
  unfolding keeps_def by (rule steps_try_except) simp_all

lemma keeps_try_finally [keeps_intros]:
  "keeps f m \<Longrightarrow> keeps f g \<Longrightarrow> keeps f (try_finally m g)"
  unfolding keeps_def by (rule steps_try_finally) simp_all

lemma keeps_modify: "(\<And>w. f (g w) = f w) \<Longrightarrow> keeps f (modify g)"
  by (simp add: keeps_def steps_def modify_def)

lemma keeps_attempt [keeps_intros]: "keeps f (attempt r)"
  by (cases r) (simp_all add: attempt_def keeps_intros)

lemma keeps_of_sum [keeps_intros]: "keeps f (of_sum r)"
  by (cases r) (simp_all add: of_sum_def keeps_intros)

lemma keeps_get_str [keeps_intros]: "keeps f (get_str s k)"
  by (cases "strs s k") (simp_all add: get_str_def keeps_intros)

lemma keeps_get_list [keeps_intros]: "keeps f (get_list s k)"
  by (cases "lists s k") (simp_all add: get_list_def keeps_intros)

lemma log_extends_refl: "log_extends w w"
  by (simp add: log_extends_def)


subsection \<open>The logger\<close>

lemma log_print_apply:
  "log_print E stage job note w =
    (let ts = strftime (clock E (ticks w));
         w1 = w\<lparr>ticks := Suc (ticks w),
                console := console w @ [''['' @ ts @ ''] ['' @ stage @ ''] ['' @ job @ ''] '' @ note]\<rparr>
     in log_append E [stage, job, ts, note] w1)"
  by (simp add: log_print_def bnd_def now_ts_def print_line_def modify_def Let_def)

lemma log_append_ok: "log_ok E \<Longrightarrow> log_append E row w = (Inr (), appended row w)"
  by (simp add: log_append_def log_ok_def appended_def log_rows_def Let_def)

lemma log_print_ok:
  "log_ok E \<Longrightarrow> log_print E stage job note w = (Inr (), logged E stage job note w)"
  by (simp add: log_print_apply Let_def log_append_ok logged_def said_def)

lemma now_ts_apply: "now_ts E w = (Inr (strftime (clock E (ticks w))), w\<lparr>ticks := Suc (ticks w)\<rparr>)"
  by (simp add: now_ts_def)


lemma keeps_now_ts: "ignores_log f \<Longrightarrow> keeps f (now_ts E)"
  by (simp add: keeps_def steps_def now_ts_def ignores_log_def)

lemma keeps_log_print: "ignores_log f \<Longrightarrow> keeps f (log_print E s j n)"
  by (simp add: keeps_def steps_def log_print_apply log_append_def ignores_log_def Let_def
      split: option.splits)

lemma ignores_log_fields:
  "ignores_log calls" "ignores_log files" "ignores_log outbox" "ignores_log db_open"
  "ignores_log (\<lambda>w. files w p)"
  by (simp_all add: ignores_log_def db_open_def)

lemma last_logged:
  "last (log_rows (logged E s j n w)) = [s, j, strftime (clock E (ticks w)), n]"
  by (simp add: logged_def appended_def said_def log_rows_def)

lemma outbox_logged: "outbox (logged E s j n w) = outbox w"
  by (simp add: logged_def appended_def said_def)

text \<open>Rows that are not terminal leave the terminal records as they are.\<close>

lemma not_terminal_header: "\<not> terminal header"
  by (simp add: terminal_def header_def)

lemma keeps_terminal_log_print:
  "s \<noteq> ''SUCCESS'' \<Longrightarrow> s \<noteq> ''FAIL'' \<Longrightarrow> keeps terminal_rows (log_print E s j n)"
  by (simp add: keeps_def steps_def log_print_apply log_append_def terminal_rows_def log_rows_def
      terminal_def header_def Let_def split: option.splits)

lemma keeps_terminal_modify: "(\<And>w. log_csv (g w) = log_csv w) \<Longrightarrow> keeps terminal_rows (modify g)"
  by (simp add: keeps_def steps_def modify_def terminal_rows_def log_rows_def)

lemma keeps_terminal_now_ts: "keeps terminal_rows (now_ts E)"
  by (simp add: keeps_def steps_def now_ts_def terminal_rows_def log_rows_def)

lemma terminal_rows_appended:
  "terminal_rows (appended row w) = terminal_rows w @ (if terminal row then [row] else [])"
  by (simp add: appended_def terminal_rows_def log_rows_def terminal_def header_def)

lemma terminal_rows_logged:
  "s \<noteq> ''SUCCESS'' \<Longrightarrow> s \<noteq> ''FAIL'' \<Longrightarrow> terminal_rows (logged E s j n w) = terminal_rows w"
  by (simp add: logged_def terminal_rows_appended terminal_def)
     (simp add: said_def terminal_rows_def log_rows_def)

subsection \<open>The notifier\<close>

lemma mail_try_cases:
  assumes "log_ok E" and "mail_try E l sender cid cs tok rcp subj body att w = (r, w')"
  shows "case r of
           Inl e \<Rightarrow> outbox w' = outbox w
         | Inr b \<Rightarrow> b \<and> (\<exists>m. outbox w' = outbox w @ [m] \<and> gmail_send E m = None) \<and>
                   oauth_refresh E cid cs tok = None \<and> gmail_build E = None \<and>
                   (\<exists>ts. last (log_rows w') = [''MAIL-SENT'', l, ts, ''Mail sent to '' @ repr_list E rcp])"
  using assms(2)
  by (auto simp: mail_try_def bnd_def attach_part_def modify_def attempt_def ret_def raise_def
      log_print_ok[OF assms(1)] logged_def said_def appended_def log_rows_def Let_def
      split: option.splits if_splits)

lemma mail_try_all_fine:
  assumes "log_ok E" and "oauth_refresh E cid cs tok = None" and "gmail_build E = None"
    and "\<forall>p. read_fails E p = None" and "\<forall>m. gmail_send E m = None"
  shows "fst (mail_try E l sender cid cs tok rcp subj body att w) = Inr True"
  using assms(2-)
  by (simp add: mail_try_def bnd_def attach_part_def modify_def attempt_def ret_def
      log_print_ok[OF assms(1)] Let_def split: option.splits)

lemma mail_except_ok:
  "log_ok E \<Longrightarrow> mail_except E l e w =
     (Inr False, logged E ''MAIL-ERROR'' l (str_exn e @ nl @ traceback E e) w)"
  by (simp add: mail_except_def bnd_def ret_def log_print_ok Let_def)

lemma send_mail_unfold:
  "send_mail_gmail_api E sender cid cs tok rcp subj body att w =
     try_except (mail_try E (''MAIL:'' @ subj) sender cid cs tok rcp subj body att)
                (mail_except E (''MAIL:'' @ subj)) (w\<lparr>calls := calls w @ [SendMail rcp subj]\<rparr>)"
  by (simp add: send_mail_gmail_api_def bnd_def record_call_def modify_def Let_def)

lemma send_mail_outcome:
  assumes "log_ok E"
  shows "\<exists>b w'. send_mail_gmail_api E sender cid cs tok rcp subj body att w = (Inr b, w') \<and>
           (if b then (\<exists>m. outbox w' = outbox w @ [m] \<and> gmail_send E m = None)
                      \<and> (\<exists>ts. last (log_rows w') =
                            [''MAIL-SENT'', ''MAIL:'' @ subj, ts, ''Mail sent to '' @ repr_list E rcp])
            else outbox w' = outbox w
                 \<and> (\<exists>e ts. last (log_rows w') =
                        [''MAIL-ERROR'', ''MAIL:'' @ subj, ts, str_exn e @ nl @ traceback E e])) \<and>
           (oauth_refresh E cid cs tok = None \<and> gmail_build E = None \<and>
              (\<forall>p. read_fails E p = None) \<and> (\<forall>m. gmail_send E m = None) \<longrightarrow> b) \<and>
           (oauth_refresh E cid cs tok \<noteq> None \<or> gmail_build E \<noteq> None \<or>
              (\<forall>m. gmail_send E m \<noteq> None) \<longrightarrow> \<not> b)"
proof -
  let ?w0 = "w\<lparr>calls := calls w @ [SendMail rcp subj]\<rparr>"
  let ?l = "''MAIL:'' @ subj"
  obtain r w1 where t: "mail_try E ?l sender cid cs tok rcp subj body att ?w0 = (r, w1)"
    by (cases "mail_try E ?l sender cid cs tok rcp subj body att ?w0")
  have s: "send_mail_gmail_api E sender cid cs tok rcp subj body att w =
           (case r of Inl e \<Rightarrow> mail_except E ?l e w1 | Inr b \<Rightarrow> (Inr b, w1))"
    using t by (simp add: send_mail_unfold try_except_def split: sum.splits)
  note c = mail_try_cases [OF assms t]
  have fine: "oauth_refresh E cid cs tok = None \<and> gmail_build E = None \<and>
              (\<forall>p. read_fails E p = None) \<and> (\<forall>m. gmail_send E m = None) \<Longrightarrow> r = Inr True"
    using mail_try_all_fine [OF assms, of cid cs tok ?l sender rcp subj body att ?w0] t by simp
  show ?thesis
  proof (cases r)
    case (Inl e)
    have "send_mail_gmail_api E sender cid cs tok rcp subj body att w =
            (Inr False, logged E ''MAIL-ERROR'' ?l (str_exn e @ nl @ traceback E e) w1)"
      using s Inl by (simp add: mail_except_ok [OF assms])
    moreover have "outbox w1 = outbox w" using c Inl by simp
    moreover have "\<not> (oauth_refresh E cid cs tok = None \<and> gmail_build E = None \<and>
              (\<forall>p. read_fails E p = None) \<and> (\<forall>m. gmail_send E m = None))"
      using fine Inl by blast
    ultimately show ?thesis
      by (intro exI [of _ False]
            exI [of _ "logged E ''MAIL-ERROR'' ?l (str_exn e @ nl @ traceback E e) w1"])
         (simp add: last_logged outbox_logged, blast)
  next
    case (Inr b)
    have "send_mail_gmail_api E sender cid cs tok rcp subj body att w = (Inr True, w1)"
      using s Inr c by simp
    moreover have "(\<exists>m. outbox w1 = outbox w @ [m] \<and> gmail_send E m = None)"
      using c Inr by simp
    moreover have "\<exists>ts. last (log_rows w1) =
        [''MAIL-SENT'', ?l, ts, ''Mail sent to '' @ repr_list E rcp]"
      using c Inr by simp
    moreover have "oauth_refresh E cid cs tok = None \<and> gmail_build E = None"
      using c Inr by simp
    moreover have "\<not> (\<forall>m. gmail_send E m \<noteq> None)" using c Inr by auto
    ultimately show ?thesis
      by (intro exI [of _ True] exI [of _ w1]) simp
  qed
qed




subsection \<open>A missing attachment\<close>







subsection \<open>The query executor releases its handles\<close>

lemma finaliser_db:
  "db_open (snd (bnd cursor_close (\<lambda>_. bnd connection_close (\<lambda>_. log_print E s j n)) w))
     = (db_conns w - 1, db_cursors w - 1)"
proof -
  let ?w = "w\<lparr>db_cursors := db_cursors w - 1, db_conns := db_conns w - 1\<rparr>"
  have "db_open (snd (log_print E s j n ?w)) = db_open ?w"
    by (rule keeps_apply) (rule keeps_log_print, rule ignores_log_fields)
  then show ?thesis
    by (simp add: bnd_def cursor_close_def connection_close_def modify_def db_open_def)
qed

lemma try_finally_db:
  assumes "keeps db_open m"
  shows "db_open (snd (try_finally m
           (bnd cursor_close (\<lambda>_. bnd connection_close (\<lambda>_. log_print E s j n))) w))
         = (db_conns w - 1, db_cursors w - 1)"
proof -
  let ?fin = "bnd cursor_close (\<lambda>_. bnd connection_close (\<lambda>_. log_print E s j n))"
  obtain r w' where mw: "m w = (r, w')" by (cases "m w")
  have a: "db_open w' = db_open w" using assms mw by (rule keepsD)
  obtain r2 w2 where fw: "?fin w' = (r2, w2)" by (cases "?fin w'")
  have "db_open w2 = (db_conns w' - 1, db_cursors w' - 1)"
    using finaliser_db [of E s j n w'] fw by simp
  then have "db_open w2 = (db_conns w - 1, db_cursors w - 1)"
    using a by (simp add: db_open_def)
  then show ?thesis using mw fw by (cases r2) (simp_all add: try_finally_def)
qed

lemma query_body_db:
  "keeps db_open
     (bnd (of_sum (db_execute E dsn sql)) (\<lambda>cur.
        let cols = (case description cur of Some d \<Rightarrow> d | None \<Rightarrow> []) in
        bnd (of_sum (fetchall cur)) (\<lambda>fetched.
        let df = \<lparr>columns = cols, rows = fetched\<rparr> in
        bnd (log_print E ''DB-EXEC'' ''THREAD''
               (''Executed SQL | Rows='' @ str_nat (length (rows df)))) (\<lambda>_.
        ret df))))"
  by (simp add: Let_def keeps_intros keeps_log_print ignores_log_fields)

text \<open>
  Claim C3. Whatever the database, the statement and the audit log do, and on whichever
  path \<^verbatim>\<open>execute_query\<close> is left (normal return, \<^verbatim>\<open>connect\<close> raising, \<^verbatim>\<open>cur.execute\<close>
  raising, \<^verbatim>\<open>fetchall\<close> raising, a log line raising), the number of open connections and
  the number of open cursors are what they were before the call: the connection and the
  cursor the call opened are closed when it is left.
\<close>

theorem execute_query_releases:
  "db_conns (snd (execute_query E dsn sql w)) = db_conns w \<and>
   db_cursors (snd (execute_query E dsn sql w)) = db_cursors w"
proof -
  let ?w0 = "w\<lparr>calls := calls w @ [ExecuteQuery dsn sql]\<rparr>"
  obtain r1 w1 where l1: "log_print E ''DB-CONNECT'' ''THREAD'' ''Opening DB connection'' ?w0 = (r1, w1)"
    by (cases "log_print E ''DB-CONNECT'' ''THREAD'' ''Opening DB connection'' ?w0")
  have "db_open w1 = db_open ?w0"
    using keeps_log_print [OF ignores_log_fields(4)] l1 by (rule keepsD)
  then have k1: "db_open w1 = db_open w" by (simp add: db_open_def)
  show ?thesis
  proof (cases r1)
    case (Inl e)
    then show ?thesis using l1 k1
      by (simp add: execute_query_def bnd_def record_call_def modify_def db_open_def)
  next
    case (Inr u)
    show ?thesis
    proof (cases "db_connect E dsn")
      case (Some e)
      then show ?thesis using l1 k1 Inr
        by (simp add: execute_query_def bnd_def record_call_def modify_def db_open_def
            connect_def attempt_def raise_def)
    next
      case None
      let ?w2 = "w1\<lparr>db_conns := Suc (db_conns w1), db_cursors := Suc (db_cursors w1)\<rparr>"
      have "db_open (snd (execute_query E dsn sql w)) = (db_conns ?w2 - 1, db_cursors ?w2 - 1)"
        using l1 Inr None
          try_finally_db [OF query_body_db, of E dsn sql E "''DB-CLOSE''" "''THREAD''"
            "''Connection closed.''" ?w2]
        by (simp add: execute_query_def bnd_def record_call_def modify_def
            connect_def attempt_def ret_def cursor_def)
      then show ?thesis using k1 by (simp add: db_open_def)
    qed
  qed
qed

subsection \<open>Steps that write no terminal record and start no job\<close>

lemma frame_refl: "frame E R \<Longrightarrow> R w w"
  by (simp add: frame_def)

lemma frame_trans:
  assumes "frame E R" and "R a b" and "R b c" shows "R a c"
proof -
  have "\<forall>a b c. R a b \<longrightarrow> R b c \<longrightarrow> R a c" using assms(1) by (simp add: frame_def)
  then show ?thesis using assms(2,3) by blast
qed

lemma fr_ret: "frame E R \<Longrightarrow> steps R (ret x)"
  by (rule steps_ret) (rule frame_refl)

lemma fr_raise: "frame E R \<Longrightarrow> steps R (raise e)"
  by (rule steps_raise) (rule frame_refl)

lemma fr_bnd:
  assumes "frame E R" and "steps R m" and "\<And>x. steps R (k x)"
  shows "steps R (bnd m k)"
proof (rule steps_bnd)
  fix a b c assume "R a b" and "R b c"
  then show "R a c" by (rule frame_trans [OF assms(1)])
qed (rule assms)+

lemma fr_try_except:
  assumes "frame E R" and "steps R m" and "\<And>e. steps R (h e)"
  shows "steps R (try_except m h)"
proof (rule steps_try_except)
  fix a b c assume "R a b" and "R b c"
  then show "R a c" by (rule frame_trans [OF assms(1)])
qed (rule assms)+

lemma fr_try_finally:
  assumes "frame E R" and "steps R m" and "steps R g"
  shows "steps R (try_finally m g)"
proof (rule steps_try_finally)
  fix a b c assume "R a b" and "R b c"
  then show "R a c" by (rule frame_trans [OF assms(1)])
qed (rule assms)+

lemma fr_attempt: assumes fr: "frame E R" shows "steps R (attempt r)"
  by (cases r) (simp_all add: attempt_def fr_ret [OF fr] fr_raise [OF fr])

lemma fr_of_sum: assumes fr: "frame E R" shows "steps R (of_sum r)"
  by (cases r) (simp_all add: of_sum_def fr_ret [OF fr] fr_raise [OF fr])

lemma fr_get_str: assumes fr: "frame E R" shows "steps R (get_str s k)"
  by (cases "strs s k") (simp_all add: get_str_def fr_ret [OF fr] fr_raise [OF fr])

lemma fr_get_list: assumes fr: "frame E R" shows "steps R (get_list s k)"
  by (cases "lists s k") (simp_all add: get_list_def fr_ret [OF fr] fr_raise [OF fr])

lemma fr_log_print:
  "frame E R \<Longrightarrow> s \<noteq> ''SUCCESS'' \<Longrightarrow> s \<noteq> ''FAIL'' \<Longrightarrow> steps R (log_print E s j n)"
  by (simp add: frame_def)

lemma fr_now_ts: "frame E R \<Longrightarrow> steps R (now_ts E)"
  by (simp add: frame_def)

lemma fr_record_call: "frame E R \<Longrightarrow> \<not> is_run c \<Longrightarrow> steps R (record_call c)"
  by (simp add: frame_def)

lemmas fr_rules = fr_bnd fr_try_except fr_try_finally fr_ret fr_raise fr_attempt fr_of_sum
  fr_get_str fr_get_list fr_log_print fr_now_ts fr_record_call

lemma fr_attach_part:
  assumes fr: "frame E R" shows "steps R (attach_part E l a m)"
  unfolding steps_def
proof
  fix w
  have k: "steps R (bnd (attempt (read_fails E p)) (\<lambda>_.
                   bnd (log_print E ''MAIL'' l (''Attached file '' @ p)) (\<lambda>_.
                   ret (m\<lparr>msg_attachment := Some (path_name p, c)\<rparr>))))" for p c
    by (intro fr_rules [OF fr]) simp_all
  show "R w (snd (attach_part E l a m w))"
    using k frame_refl [OF fr, of w] by (simp add: attach_part_def steps_def split: option.splits)
qed

lemma fr_outbox: "frame E R \<Longrightarrow> steps R (modify (\<lambda>w. w\<lparr>outbox := g w\<rparr>))"
  by (simp add: steps_def modify_def frame_def)

lemma fr_mail_try:
  assumes fr: "frame E R" shows "steps R (mail_try E l sender cid cs tok rcp subj body att)"
  unfolding mail_try_def Let_def
  by (intro fr_rules [OF fr] fr_attach_part [OF fr] fr_outbox [OF fr]) simp_all

lemma fr_mail_except:
  assumes fr: "frame E R" shows "steps R (mail_except E l e)"
  unfolding mail_except_def Let_def
  by (intro fr_rules [OF fr]) simp_all

lemma fr_send_mail:
  assumes fr: "frame E R"
  shows "steps R (send_mail_gmail_api E sender cid cs tok rcp subj body att)"
  unfolding send_mail_gmail_api_def Let_def
  by (intro fr_rules [OF fr] fr_mail_try [OF fr] fr_mail_except [OF fr]) (simp_all add: is_run_def)

lemma fr_db:
  assumes fr: "frame E R"
  shows "steps R (connect E dsn)" "steps R cursor" "steps R cursor_close" "steps R connection_close"
proof -
  have m: "steps R (modify (\<lambda>w. w\<lparr>db_conns := g w\<rparr>))"
          "steps R (modify (\<lambda>w. w\<lparr>db_cursors := g w\<rparr>))" for g
    using fr by (simp_all add: steps_def modify_def frame_def)
  show "steps R (connect E dsn)" unfolding connect_def by (intro fr_rules [OF fr] m)
  show "steps R cursor" "steps R cursor_close" "steps R connection_close"
    unfolding cursor_def cursor_close_def connection_close_def by (rule m)+
qed

lemma fr_execute_query:
  assumes fr: "frame E R" shows "steps R (execute_query E dsn sql)"
  unfolding execute_query_def Let_def
  by (intro fr_rules [OF fr] fr_db [OF fr]) (simp_all add: is_run_def)

lemma fr_to_csv:
  assumes fr: "frame E R" and wr: "writes R p" shows "steps R (to_csv E df p)"
proof -
  have "steps R (modify (\<lambda>w. w\<lparr>files := (files w)(p \<mapsto> CsvFile df)\<rparr>))"
    using wr by (simp add: steps_def modify_def writes_def)
  then show ?thesis unfolding to_csv_def
    by (intro fr_rules [OF fr]) (simp_all add: is_run_def)
qed

lemma fr_zip_csv:
  assumes fr: "frame E R" and wr: "writes R p" shows "steps R (zip_csv E p c)"
proof -
  have m: "steps R (modify (\<lambda>w. w\<lparr>files := (files w)(p \<mapsto> x)\<rparr>))" for x
    using wr by (simp add: steps_def modify_def writes_def)
  have k: "steps R (bnd (attempt (zip_write_fails E p)) (\<lambda>_.
               modify (\<lambda>w. w\<lparr>files := (files w)(p \<mapsto> ZipFile [(path_name c, x)])\<rparr>)))" for x
    by (intro fr_rules [OF fr] m)
  have t: "steps R (\<lambda>w. case files w c of
             None \<Rightarrow> (Inl (FileNotFoundError c), w)
           | Some x \<Rightarrow>
               bnd (attempt (zip_write_fails E p)) (\<lambda>_.
               modify (\<lambda>w. w\<lparr>files := (files w)(p \<mapsto> ZipFile [(path_name c, x)])\<rparr>)) w)"
    unfolding steps_def
  proof
    fix w
    show "R w (snd (case files w c of
             None \<Rightarrow> (Inl (FileNotFoundError c), w)
           | Some x \<Rightarrow>
               bnd (attempt (zip_write_fails E p)) (\<lambda>_.
               modify (\<lambda>w. w\<lparr>files := (files w)(p \<mapsto> ZipFile [(path_name c, x)])\<rparr>)) w))"
      using k frame_refl [OF fr, of w] by (simp add: steps_def split: option.splits)
  qed
  show ?thesis unfolding zip_csv_def
    by (intro fr_rules [OF fr] m t) (simp_all add: is_run_def)
qed



subsection \<open>The three relations are frames\<close>

lemma run_calls_simps:
  "run_calls (w\<lparr>ticks := t\<rparr>) = run_calls w" "run_calls (w\<lparr>console := c\<rparr>) = run_calls w"
  "run_calls (w\<lparr>log_attempts := a\<rparr>) = run_calls w" "run_calls (w\<lparr>log_csv := l\<rparr>) = run_calls w"
  "run_calls (w\<lparr>outbox := x\<rparr>) = run_calls w" "run_calls (w\<lparr>db_conns := n\<rparr>) = run_calls w"
  "run_calls (w\<lparr>db_cursors := n\<rparr>) = run_calls w" "run_calls (w\<lparr>files := fs\<rparr>) = run_calls w"
  "run_calls (w\<lparr>calls := calls w @ [ev]\<rparr>) = run_calls w @ (if is_run ev then [ev] else [])"
  by (simp_all add: run_calls_def)

lemma terminal_rows_simps:
  "terminal_rows (w\<lparr>ticks := t\<rparr>) = terminal_rows w" "terminal_rows (w\<lparr>console := c\<rparr>) = terminal_rows w"
  "terminal_rows (w\<lparr>log_attempts := a\<rparr>) = terminal_rows w"
  "terminal_rows (w\<lparr>outbox := x\<rparr>) = terminal_rows w" "terminal_rows (w\<lparr>db_conns := n\<rparr>) = terminal_rows w"
  "terminal_rows (w\<lparr>db_cursors := n\<rparr>) = terminal_rows w" "terminal_rows (w\<lparr>files := fs\<rparr>) = terminal_rows w"
  "terminal_rows (w\<lparr>calls := cs\<rparr>) = terminal_rows w"
  by (simp_all add: terminal_rows_def log_rows_def)


lemma ignores_log_run_calls: "ignores_log run_calls"
  by (simp add: ignores_log_def run_calls_def)

lemma frame_quiet: "frame E quiet"
proof -
  have "steps quiet (log_print E s j n)" if "s \<noteq> ''SUCCESS''" "s \<noteq> ''FAIL''" for s j n
    using keeps_terminal_log_print [OF that, of E j n] keeps_log_print [OF ignores_log_run_calls, of E s j n]
    by (simp add: keeps_def steps_def quiet_def)
  moreover have "steps quiet (now_ts E)"
    by (simp add: steps_def quiet_def now_ts_def run_calls_simps terminal_rows_simps)
  moreover have "steps quiet (record_call c)" if "\<not> is_run c" for c
    using that by (simp add: steps_def quiet_def record_call_def modify_def run_calls_simps terminal_rows_simps)
  ultimately show ?thesis
    by (simp add: frame_def quiet_def run_calls_simps terminal_rows_simps)
qed

lemma writes_quiet: "writes quiet p"
  by (simp add: writes_def quiet_def run_calls_simps terminal_rows_simps)









subsection \<open>The job runner writes one terminal record\<close>

lemma quietD: "steps quiet m \<Longrightarrow> m w = (r, w') \<Longrightarrow> terminal_rows w' = terminal_rows w"
  by (drule (1) stepsD) (simp add: quiet_def)

lemma adds_bnd:
  assumes m: "steps quiet m" and k: "\<And>x. adds P (k x)"
  shows "adds P (bnd m k)"
  unfolding adds_def
proof
  fix w
  obtain r w1 where mw: "m w = (r, w1)" by (cases "m w")
  have q: "terminal_rows w1 = terminal_rows w" using m mw by (rule quietD)
  show "case bnd m k w of
      (Inl e, w') \<Rightarrow> terminal_rows w' = terminal_rows w
    | (Inr x, w') \<Rightarrow> (\<exists>row. terminal_rows w' = terminal_rows w @ [row] \<and> P row)"
  proof (cases r)
    case (Inl e)
    then show ?thesis using mw q by (simp add: bnd_def)
  next
    case (Inr x)
    obtain r2 w2 where kw: "k x w1 = (r2, w2)" by (cases "k x w1")
    have "case k x w1 of
      (Inl e, w') \<Rightarrow> terminal_rows w' = terminal_rows w1
    | (Inr x, w') \<Rightarrow> (\<exists>row. terminal_rows w' = terminal_rows w1 @ [row] \<and> P row)"
      using k [of x] by (simp add: adds_def)
    then show ?thesis using Inr mw q kw by (cases r2) (simp_all add: bnd_def)
  qed
qed

lemma adds_tail:
  assumes "log_ok E" and "\<And>k. P [''SUCCESS'', j, strftime (clock E k), n]"
  shows "adds P (bnd (now_ts E) (\<lambda>ts. bnd (log_append E [''SUCCESS'', j, ts, n]) (\<lambda>_.
           log_print E ''JOB-DONE'' j n2)))"
  using assms(2)
  by (simp add: adds_def bnd_def now_ts_def log_append_ok [OF assms(1)] log_print_ok [OF assms(1)]
      terminal_rows_logged terminal_rows_appended terminal_def terminal_rows_simps)

lemmas q_rules = fr_rules [OF frame_quiet]

lemma job_try_adds:
  assumes "log_ok E"
  shows "adds (\<lambda>row. \<exists>k. row = [''SUCCESS'', job_id, strftime (clock E k),
                                   ''Job completed successfully''])
           (job_try E f secrets job_id sql_path)"
proof -
  have c: "steps quiet (case scripts E sql_path of
            None \<Rightarrow> raise (FileNotFoundError (''SQL file not found: '' @ sql_path))
          | Some r \<Rightarrow> of_sum r)"
    by (cases "scripts E sql_path") (simp_all add: q_rules)
  show ?thesis
    unfolding job_try_def Let_def
    apply (rule adds_bnd, rule c)
    apply (rule adds_bnd, rule q_rules)
    apply (rule adds_bnd, rule fr_execute_query [OF frame_quiet])
    apply (rule adds_bnd, rule fr_to_csv [OF frame_quiet writes_quiet])
    apply (rule adds_bnd, rule q_rules, simp, simp)
    apply (rule adds_bnd, rule fr_zip_csv [OF frame_quiet writes_quiet])
    apply (rule adds_bnd, rule q_rules, simp, simp)
    apply (rule adds_bnd, rule q_rules)
    apply (rule adds_bnd, rule q_rules)
    apply (rule adds_bnd, rule q_rules)
    apply (rule adds_bnd, rule q_rules)
    apply (rule adds_bnd, rule q_rules)
    apply (rule adds_bnd, rule fr_send_mail [OF frame_quiet])
    apply (rule adds_tail [OF assms])
    apply (rule exI, rule refl)
    done
qed

lemma send_mail_returns:
  assumes "log_ok E"
  shows "\<exists>b w'. send_mail_gmail_api E sender cid cs tok rcp subj body att w = (Inr b, w')"
proof -
  let ?w0 = "w\<lparr>calls := calls w @ [SendMail rcp subj]\<rparr>"
  let ?l = "''MAIL:'' @ subj"
  obtain r w1 where t: "mail_try E ?l sender cid cs tok rcp subj body att ?w0 = (r, w1)"
    by (cases "mail_try E ?l sender cid cs tok rcp subj body att ?w0")
  show ?thesis using t
    by (cases r) (auto simp: send_mail_unfold try_except_def mail_except_ok [OF assms])
qed



lemma run_one_job_unfold:
  "run_one_job E f secrets w =
     (let ts = strftime (clock E (ticks w));
          job_id = f @ '' '' @ ts;
          w0 = w\<lparr>calls := calls w @ [RunOneJob f], ticks := Suc (ticks w)\<rparr>
      in bnd (log_print E ''JOB-START'' job_id ''Starting job...'') (\<lambda>_.
           try_except (job_try E f secrets job_id (path_join SCRIPTS_DIR f))
                      (job_except E f secrets job_id)) w0)"
  by (simp add: run_one_job_def bnd_def record_call_def modify_def now_ts_def Let_def
      split: prod.splits sum.splits)

lemma execute_query_ok:
  assumes "log_ok E" and "db_connect E dsn = None" and "db_execute E dsn sql = Inr cur"
    and "fetchall cur = Inr fetched"
  shows "\<exists>w'. execute_query E dsn sql w =
           (Inr \<lparr>columns = (case description cur of Some d \<Rightarrow> d | None \<Rightarrow> []), rows = fetched\<rparr>, w')
           \<and> files w' = files w \<and> outbox w' = outbox w"
  using assms(2-)
  by (simp add: execute_query_def bnd_def try_finally_def record_call_def modify_def connect_def
      attempt_def ret_def cursor_def cursor_close_def connection_close_def of_sum_def
      log_print_ok [OF assms(1)] logged_def said_def appended_def Let_def)

lemma files_logged: "files (logged E s j n w) = files w"
  by (simp add: logged_def appended_def said_def)


lemma log_extends_logged: "log_extends w (logged E s j n w)"
  by (simp add: logged_def appended_def said_def log_extends_def log_rows_def)

lemma execute_query_no_raise:
  assumes "log_ok E" and "db_connect E dsn = None" and "db_execute E dsn sql = Inr cur"
    and "fetchall cur = Inr fetched"
  shows "execute_query E dsn sql w \<noteq> (Inl e, w')"
  using execute_query_ok [OF assms, of w] by auto

lemma send_mail_no_raise:
  assumes "log_ok E"
  shows "send_mail_gmail_api E sender cid cs tok rcp subj body att w \<noteq> (Inl e, w')"
  using send_mail_returns [OF assms, of sender cid cs tok rcp subj body att w] by auto

lemma job_try_ok:
  assumes lg: "log_ok E"
    and sc: "scripts E sql_path = Some (Inr sql)"
    and dsn: "strs secrets ''DB_DSN'' = Some dsn"
    and db: "db_connect E dsn = None" "db_execute E dsn sql = Inr cur" "fetchall cur = Inr fetched"
    and ex: "csv_write_fails E (path_join OUTPUT_DIR (job_id @ ''.csv'')) = None"
            "zip_open_fails E (path_join OUTPUT_DIR (job_id @ ''.zip'')) = None"
            "zip_write_fails E (path_join OUTPUT_DIR (job_id @ ''.zip'')) = None"
    and ks: "strs secrets ''GMAIL_SENDER_EMAIL'' = Some sender"
            "strs secrets ''GMAIL_CLIENT_ID'' = Some cid"
            "strs secrets ''GMAIL_CLIENT_SECRET'' = Some cs"
            "strs secrets ''GMAIL_REFRESH_TOKEN'' = Some tok"
            "lists secrets ''RECEIVERS'' = Some rcv"
  shows "\<exists>w'. job_try E f secrets job_id sql_path w = (Inr (), w')"
proof -
  have csv_zip: "path_join OUTPUT_DIR (job_id @ ''.csv'') \<noteq> path_join OUTPUT_DIR (job_id @ ''.zip'')"
    by (simp add: path_join_def OUTPUT_DIR_def split: list.splits)
  have "job_try E f secrets job_id sql_path w \<noteq> (Inl e, w')" for e w'
  proof
    assume "job_try E f secrets job_id sql_path w = (Inl e, w')"
    then show False
      using sc dsn ks ex csv_zip execute_query_no_raise [OF lg db] send_mail_no_raise [OF lg]
      by (auto simp: job_try_def Let_def bnd_def of_sum_def ret_def get_str_def get_list_def
          to_csv_def zip_csv_def record_call_def modify_def attempt_def now_ts_def
          log_print_ok [OF lg] log_append_ok [OF lg] files_logged
          split: sum.splits prod.splits option.splits)
  qed
  then show ?thesis
    by (cases "job_try E f secrets job_id sql_path w") (metis (full_types) old.unit.exhaust sum.exhaust)
qed










subsection \<open>A job whose script is missing\<close>

lemma keeps_attach_part:
  assumes "ignores_log f" shows "keeps f (attach_part E l a m)"
  unfolding keeps_def steps_def
proof
  fix w
  have k: "keeps f (bnd (attempt (read_fails E p)) (\<lambda>_.
                   bnd (log_print E ''MAIL'' l (''Attached file '' @ p)) (\<lambda>_.
                   ret (m\<lparr>msg_attachment := Some (path_name p, c)\<rparr>))))" for p c
    by (intro keeps_intros keeps_log_print assms)
  show "f (snd (attach_part E l a m w)) = f w"
    using k by (simp add: attach_part_def keeps_def steps_def split: option.splits)
qed

lemma keeps_mail_try:
  assumes "ignores_log f" and "\<And>w x. f (w\<lparr>outbox := x\<rparr>) = f w"
  shows "keeps f (mail_try E l sender cid cs tok rcp subj body att)"
  unfolding mail_try_def Let_def
  by (intro keeps_intros keeps_log_print keeps_attach_part keeps_modify assms) 

lemma keeps_mail_except:
  assumes "ignores_log f" shows "keeps f (mail_except E l e)"
  unfolding mail_except_def Let_def
  by (intro keeps_intros keeps_log_print assms)


lemma send_mail_files:
  "files (snd (send_mail_gmail_api E sender cid cs tok rcp subj body att w)) = files w"
proof -
  have "keeps files (try_except (mail_try E (''MAIL:'' @ subj) sender cid cs tok rcp subj body att)
                (mail_except E (''MAIL:'' @ subj)))"
    by (intro keeps_intros keeps_mail_try keeps_mail_except ignores_log_fields) simp
  from keeps_apply [OF this] show ?thesis by (simp add: send_mail_unfold)
qed















subsection \<open>A failed notification does not fail the job\<close>

lemma execute_query_result:
  assumes "log_ok E" and "db_connect E dsn = None" and "db_execute E dsn sql = Inr cur"
    and "fetchall cur = Inr fetched"
    and "execute_query E dsn sql w = (r, w')"
  shows "r = Inr \<lparr>columns = (case description cur of Some d \<Rightarrow> d | None \<Rightarrow> []), rows = fetched\<rparr>
         \<and> files w' = files w"
  using execute_query_ok [OF assms(1-4), of w] assms(5) by auto

lemma send_mail_files_D:
  "send_mail_gmail_api E sender cid cs tok rcp subj body att w = (r, w') \<Longrightarrow> files w' = files w"
  using send_mail_files [of E sender cid cs tok rcp subj body att w] by simp

lemma files_appended: "files (appended row w) = files w"
  by (simp add: appended_def)

lemma job_try_artifacts:
  assumes lg: "log_ok E"
    and sc: "scripts E sql_path = Some (Inr sql)"
    and dsn: "strs secrets ''DB_DSN'' = Some dsn"
    and db: "db_connect E dsn = None" "db_execute E dsn sql = Inr cur" "fetchall cur = Inr fetched"
    and ex: "csv_write_fails E (path_join OUTPUT_DIR (job_id @ ''.csv'')) = None"
            "zip_open_fails E (path_join OUTPUT_DIR (job_id @ ''.zip'')) = None"
            "zip_write_fails E (path_join OUTPUT_DIR (job_id @ ''.zip'')) = None"
    and ks: "strs secrets ''GMAIL_SENDER_EMAIL'' = Some sender"
            "strs secrets ''GMAIL_CLIENT_ID'' = Some cid"
            "strs secrets ''GMAIL_CLIENT_SECRET'' = Some cs"
            "strs secrets ''GMAIL_REFRESH_TOKEN'' = Some tok"
            "lists secrets ''RECEIVERS'' = Some rcv"
    and j: "job_try E f secrets job_id sql_path w = (r, w')"
  shows "files w' = (files w)
           (path_join OUTPUT_DIR (job_id @ ''.csv'') \<mapsto>
              CsvFile \<lparr>columns = (case description cur of Some d \<Rightarrow> d | None \<Rightarrow> []), rows = fetched\<rparr>,
            path_join OUTPUT_DIR (job_id @ ''.zip'') \<mapsto>
              ZipFile [(path_name (path_join OUTPUT_DIR (job_id @ ''.csv'')),
                 CsvFile \<lparr>columns = (case description cur of Some d \<Rightarrow> d | None \<Rightarrow> []), rows = fetched\<rparr>)])"
proof -
  have csv_zip: "path_join OUTPUT_DIR (job_id @ ''.csv'') \<noteq> path_join OUTPUT_DIR (job_id @ ''.zip'')"
    by (simp add: path_join_def OUTPUT_DIR_def split: list.splits)
  show ?thesis
    using j sc dsn ks ex csv_zip send_mail_no_raise [OF lg]
    by (auto simp: job_try_def Let_def bnd_def of_sum_def ret_def get_str_def get_list_def
          to_csv_def zip_csv_def record_call_def modify_def attempt_def now_ts_def
          log_print_ok [OF lg] log_append_ok [OF lg] files_logged files_appended
          split: sum.splits prod.splits option.splits
          dest!: execute_query_result [OF lg db] send_mail_files_D)
qed

lemma success_run:
  assumes lg: "log_ok E"
    and sc: "scripts E (path_join SCRIPTS_DIR f) = Some (Inr sql)"
    and dsn: "strs secrets ''DB_DSN'' = Some dsn"
    and db: "db_connect E dsn = None" "db_execute E dsn sql = Inr cur" "fetchall cur = Inr fetched"
    and ex: "csv_write_fails E (path_join OUTPUT_DIR (f @ '' '' @ strftime (clock E (ticks w)) @ ''.csv'')) = None"
            "zip_open_fails E (path_join OUTPUT_DIR (f @ '' '' @ strftime (clock E (ticks w)) @ ''.zip'')) = None"
            "zip_write_fails E (path_join OUTPUT_DIR (f @ '' '' @ strftime (clock E (ticks w)) @ ''.zip'')) = None"
    and ks: "strs secrets ''GMAIL_SENDER_EMAIL'' = Some sender"
            "strs secrets ''GMAIL_CLIENT_ID'' = Some cid"
            "strs secrets ''GMAIL_CLIENT_SECRET'' = Some cs"
            "strs secrets ''GMAIL_REFRESH_TOKEN'' = Some tok"
            "lists secrets ''RECEIVERS'' = Some rcv"
  shows "\<exists>w' k. run_one_job E f secrets w = (Inr (), w') \<and>
           terminal_rows w' = terminal_rows w @
             [[''SUCCESS'', f @ '' '' @ strftime (clock E (ticks w)), strftime (clock E k),
               ''Job completed successfully'']] \<and>
           files w' = (files w)
             (path_join OUTPUT_DIR (f @ '' '' @ strftime (clock E (ticks w)) @ ''.csv'') \<mapsto>
                CsvFile \<lparr>columns = (case description cur of Some d \<Rightarrow> d | None \<Rightarrow> []),
                         rows = fetched\<rparr>,
              path_join OUTPUT_DIR (f @ '' '' @ strftime (clock E (ticks w)) @ ''.zip'') \<mapsto>
                ZipFile [(path_name (path_join OUTPUT_DIR
                            (f @ '' '' @ strftime (clock E (ticks w)) @ ''.csv'')),
                   CsvFile \<lparr>columns = (case description cur of Some d \<Rightarrow> d | None \<Rightarrow> []),
                            rows = fetched\<rparr>)])"
proof -
  let ?job = "f @ '' '' @ strftime (clock E (ticks w))"
  let ?w0 = "w\<lparr>calls := calls w @ [RunOneJob f], ticks := Suc (ticks w)\<rparr>"
  let ?w1 = "logged E ''JOB-START'' ?job ''Starting job...'' ?w0"
  have t1: "terminal_rows ?w1 = terminal_rows w"
    by (simp add: terminal_rows_logged terminal_rows_simps)
  have f1: "files ?w1 = files w" by (simp add: files_logged)
  have ex': "csv_write_fails E (path_join OUTPUT_DIR (?job @ ''.csv'')) = None"
            "zip_open_fails E (path_join OUTPUT_DIR (?job @ ''.zip'')) = None"
            "zip_write_fails E (path_join OUTPUT_DIR (?job @ ''.zip'')) = None"
    using ex by simp_all
  from job_try_ok [OF lg sc dsn db ex' ks, of f ?w1]
  obtain w2 where jt: "job_try E f secrets ?job (path_join SCRIPTS_DIR f) ?w1 = (Inr (), w2)"
    by auto
  have run: "run_one_job E f secrets w = (Inr (), w2)"
    using jt by (simp add: run_one_job_unfold Let_def bnd_def log_print_ok [OF lg] try_except_def)
  have "case job_try E f secrets ?job (path_join SCRIPTS_DIR f) ?w1 of
        (Inl e, w') \<Rightarrow> terminal_rows w' = terminal_rows ?w1
      | (Inr x, w') \<Rightarrow> (\<exists>row. terminal_rows w' = terminal_rows ?w1 @ [row] \<and>
           (\<exists>k. row = [''SUCCESS'', ?job, strftime (clock E k), ''Job completed successfully'']))"
    using job_try_adds [OF lg, of ?job f secrets "path_join SCRIPTS_DIR f"]
    unfolding adds_def by (rule spec)
  then have t: "\<exists>k. terminal_rows w2 = terminal_rows w @
      [[''SUCCESS'', ?job, strftime (clock E k), ''Job completed successfully'']]"
    unfolding jt using t1 by auto
  have fs: "files w2 = (files ?w1)
           (path_join OUTPUT_DIR (?job @ ''.csv'') \<mapsto>
              CsvFile \<lparr>columns = (case description cur of Some d \<Rightarrow> d | None \<Rightarrow> []), rows = fetched\<rparr>,
            path_join OUTPUT_DIR (?job @ ''.zip'') \<mapsto>
              ZipFile [(path_name (path_join OUTPUT_DIR (?job @ ''.csv'')),
                 CsvFile \<lparr>columns = (case description cur of Some d \<Rightarrow> d | None \<Rightarrow> []), rows = fetched\<rparr>)])"
    by (rule job_try_artifacts [OF lg sc dsn db ex' ks jt])
  show ?thesis using run t fs f1 by auto
qed

text \<open>
  Claim C6. Take a job whose script exists and is read, whose query is executed and
  fetched, and whose CSV and ZIP are written, with the audit log appendable and the bundle
  holding the mail keys. Whatever the notifier then does (token refresh, service build,
  attachment read or send failing, so that it returns \<^verbatim>\<open>False\<close>, or all of them working),
  \<^verbatim>\<open>run_one_job\<close> returns normally and the terminal record it has appended is the
  \<^verbatim>\<open>SUCCESS\<close> record of this job: the same record as when the mail is delivered.
\<close>

theorem mail_failure_keeps_success:
  assumes lg: "log_ok E"
    and sc: "scripts E (path_join SCRIPTS_DIR f) = Some (Inr sql)"
    and dsn: "strs secrets ''DB_DSN'' = Some dsn"
    and db: "db_connect E dsn = None" "db_execute E dsn sql = Inr cur" "fetchall cur = Inr fetched"
    and ex: "csv_write_fails E (path_join OUTPUT_DIR (f @ '' '' @ strftime (clock E (ticks w)) @ ''.csv'')) = None"
            "zip_open_fails E (path_join OUTPUT_DIR (f @ '' '' @ strftime (clock E (ticks w)) @ ''.zip'')) = None"
            "zip_write_fails E (path_join OUTPUT_DIR (f @ '' '' @ strftime (clock E (ticks w)) @ ''.zip'')) = None"
    and ks: "strs secrets ''GMAIL_SENDER_EMAIL'' = Some sender"
            "strs secrets ''GMAIL_CLIENT_ID'' = Some cid"
            "strs secrets ''GMAIL_CLIENT_SECRET'' = Some cs"
            "strs secrets ''GMAIL_REFRESH_TOKEN'' = Some tok"
            "lists secrets ''RECEIVERS'' = Some rcv"
  shows "\<exists>w' ts. run_one_job E f secrets w = (Inr (), w') \<and>
           terminal_rows w' = terminal_rows w @
             [[''SUCCESS'', f @ '' '' @ strftime (clock E (ticks w)), ts, ''Job completed successfully'']]"
  using success_run [OF assms] by blast

text \<open>The theorem in a world where the Gmail API refuses every send: the notifier returns
  \<^verbatim>\<open>False\<close>, and the job records \<^verbatim>\<open>SUCCESS\<close>.\<close>

theorem mail_failure_keeps_success_witness:
  "log_ok (demo_env\<lparr>gmail_send := (\<lambda>_. Some (ExternalError ''HttpError 503''))\<rparr>) \<and>
   fst (send_mail_gmail_api (demo_env\<lparr>gmail_send := (\<lambda>_. Some (ExternalError ''HttpError 503''))\<rparr>)
          ''me@x'' ''id'' ''cs'' ''rt'' [''a@x'', ''b@x''] ''Report: sales.sql'' ''body'' None demo_world)
     = Inr False \<and>
   (\<exists>w' ts. run_one_job (demo_env\<lparr>gmail_send := (\<lambda>_. Some (ExternalError ''HttpError 503''))\<rparr>)
               ''sales.sql'' demo_secrets demo_world = (Inr (), w') \<and>
           terminal_rows w' = terminal_rows demo_world @
             [[''SUCCESS'', ''sales.sql'' @ '' '' @ 
                 strftime (clock (demo_env\<lparr>gmail_send := (\<lambda>_. Some (ExternalError ''HttpError 503''))\<rparr>)
                   (ticks demo_world)), ts, ''Job completed successfully'']])"
proof -
  let ?E = "demo_env\<lparr>gmail_send := (\<lambda>_. Some (ExternalError ''HttpError 503''))\<rparr>"
  have lg: "log_ok ?E" by (simp add: log_ok_def demo_env_def)
  have sc: "scripts ?E (path_join SCRIPTS_DIR ''sales.sql'') = Some (Inr ''select 1 from dual'')"
    by (simp add: demo_env_def path_join_def SCRIPTS_DIR_def)
  have dsn: "strs demo_secrets ''DB_DSN'' = Some ''db''" by (simp add: demo_secrets_def)
  have db: "db_connect ?E ''db'' = None"
    "db_execute ?E ''db'' ''select 1 from dual'' = Inr \<lparr>description = Some [''A''], fetchall = Inr [[''1'']]\<rparr>"
    "fetchall \<lparr>description = Some [''A''], fetchall = Inr [[''1'']]\<rparr> = Inr [[''1'']]"
    by (simp_all add: demo_env_def)
  have ex: "csv_write_fails ?E p = None" "zip_open_fails ?E p = None" "zip_write_fails ?E p = None" for p
    by (simp_all add: demo_env_def)
  have ks: "strs demo_secrets ''GMAIL_SENDER_EMAIL'' = Some ''me@x''"
            "strs demo_secrets ''GMAIL_CLIENT_ID'' = Some ''id''"
            "strs demo_secrets ''GMAIL_CLIENT_SECRET'' = Some ''cs''"
            "strs demo_secrets ''GMAIL_REFRESH_TOKEN'' = Some ''rt''"
            "lists demo_secrets ''RECEIVERS'' = Some [''a@x'', ''b@x'']"
    by (simp_all add: demo_secrets_def)
  have f: "fst (send_mail_gmail_api ?E ''me@x'' ''id'' ''cs'' ''rt'' [''a@x'', ''b@x'']
      ''Report: sales.sql'' ''body'' None demo_world) = Inr False"
  proof -
    have "\<forall>m. gmail_send ?E m \<noteq> None" by simp
    with send_mail_outcome [OF lg, of "''me@x''" "''id''" "''cs''" "''rt''" "[''a@x'', ''b@x'']"
        "''Report: sales.sql''" "''body''" None demo_world]
    show ?thesis by auto
  qed
  from mail_failure_keeps_success [OF lg sc dsn db ex ks, of demo_world] lg f
  show ?thesis by simp
qed

subsection \<open>A failing audit log\<close>




subsection \<open>The scheduler\<close>








subsection \<open>Reading the job list\<close>















subsection \<open>Two runs of one job\<close>












end
